theory Spec2Isabelle
  imports Main
begin


section \<open>Text, bytes and the Python library functions the runner uses\<close>

text \<open>
  A Python \<open>str\<close> is a sequence of Unicode code points and a \<open>bytes\<close> object a sequence
  of bytes; both are lists of naturals here, and \<open>u\<close> turns an Isabelle literal into
  text (one code point per character).
\<close>

type_synonym str = "nat list"
type_synonym bytes = "nat list"

definition u :: "string \<Rightarrow> str" where
  "u cs = map of_char cs"

definition NL :: nat where
  "NL = 10"

definition TAB :: nat where
  "TAB = 9"

definition QUOTE :: nat where
  "QUOTE = 34"

text \<open>\<open>str.startswith\<close>.\<close>

fun startswith :: "str \<Rightarrow> str \<Rightarrow> bool" where
  "startswith _ [] = True"
| "startswith [] (_ # _) = False"
| "startswith (c # cs) (t # ts) = (c = t \<and> startswith cs ts)"

text \<open>\<open>str.endswith\<close>.\<close>

definition endswith :: "str \<Rightarrow> str \<Rightarrow> bool" where
  "endswith s t = startswith (rev s) (rev t)"

text \<open>
  \<open>str.isspace\<close> for one code point: the characters Python treats as whitespace.
\<close>

definition isspace :: "nat \<Rightarrow> bool" where
  "isspace c = ((9 \<le> c \<and> c \<le> 13) \<or> (28 \<le> c \<and> c \<le> 32) \<or> c = 133 \<or> c = 160
     \<or> c = 5760 \<or> (8192 \<le> c \<and> c \<le> 8202) \<or> c = 8232 \<or> c = 8233
     \<or> c = 8239 \<or> c = 8287 \<or> c = 12288)"

text \<open>\<open>str.strip()\<close>: leading and trailing whitespace removed.\<close>

definition strip :: "str \<Rightarrow> str" where
  "strip s = rev (dropWhile isspace (rev (dropWhile isspace s)))"

text \<open>The slice \<open>s[:-1]\<close>: all but the last element, and the empty sequence when \<open>s\<close> is
  empty.\<close>

definition slice_to_last :: "str \<Rightarrow> str" where
  "slice_to_last s = take (length s - 1) s"

text \<open>\<open>str(n)\<close> for a non-negative integer.\<close>

fun str_nat :: "nat \<Rightarrow> str" where
  "str_nat n = (if n < 10 then [48 + n] else str_nat (n div 10) @ [48 + n mod 10])"

declare str_nat.simps [simp del]

text \<open>\<open>sep.join(xs)\<close>.\<close>

fun join :: "str \<Rightarrow> str list \<Rightarrow> str" where
  "join sep [] = []"
| "join sep [x] = x"
| "join sep (x # y # ys) = x @ sep @ join sep (y # ys)"


section \<open>Exceptions\<close>

text \<open>
  The exceptions that can leave a function of the program. \<open>UnicodeDecodeError\<close> and
  \<open>UnicodeEncodeError\<close> are subclasses of \<open>ValueError\<close> in Python, so an
  \<open>except ValueError\<close> clause catches all three.
\<close>

datatype exc =
    ValueError str
  | UnicodeDecodeError
  | UnicodeEncodeError
  | BrokenPipeError
  | KeyError str
  | IndexError

fun is_ValueError :: "exc \<Rightarrow> bool" where
  "is_ValueError (ValueError _) = True"
| "is_ValueError UnicodeDecodeError = True"
| "is_ValueError UnicodeEncodeError = True"
| "is_ValueError _ = False"

section \<open>UTF-8\<close>

text \<open>
  \<open>bytes.decode("utf-8")\<close> and \<open>str.encode("utf-8")\<close>, strict as in Python: overlong
  forms, surrogates and values above U+10FFFF are rejected. \<open>None\<close> stands for the
  \<open>UnicodeDecodeError\<close> (\<open>UnicodeEncodeError\<close>) that Python raises.
\<close>

definition cont :: "nat \<Rightarrow> bool" where
  "cont b = (128 \<le> b \<and> b < 192)"

fun utf8_decode :: "bytes \<Rightarrow> str option" where
  "utf8_decode [] = Some []"
| "utf8_decode (b # bs) =
    (if b < 128 then map_option ((#) b) (utf8_decode bs)
     else if 194 \<le> b \<and> b < 224 then
       (case bs of
          c1 # r \<Rightarrow>
            if cont c1 then map_option ((#) ((b - 192) * 64 + (c1 - 128))) (utf8_decode r)
            else None
        | _ \<Rightarrow> None)
     else if 224 \<le> b \<and> b < 240 then
       (case bs of
          c1 # c2 # r \<Rightarrow>
            (let cp = (b - 224) * 4096 + (c1 - 128) * 64 + (c2 - 128) in
             if cont c1 \<and> cont c2 \<and> 2048 \<le> cp \<and> (cp < 55296 \<or> 57344 \<le> cp)
             then map_option ((#) cp) (utf8_decode r) else None)
        | _ \<Rightarrow> None)
     else if 240 \<le> b \<and> b < 245 then
       (case bs of
          c1 # c2 # c3 # r \<Rightarrow>
            (let cp = (b - 240) * 262144 + (c1 - 128) * 4096 + (c2 - 128) * 64 + (c3 - 128) in
             if cont c1 \<and> cont c2 \<and> cont c3 \<and> 65536 \<le> cp \<and> cp < 1114112
             then map_option ((#) cp) (utf8_decode r) else None)
        | _ \<Rightarrow> None)
     else None)"

fun utf8_encode :: "str \<Rightarrow> bytes option" where
  "utf8_encode [] = Some []"
| "utf8_encode (c # cs) =
    (if c < 128 then map_option ((@) [c]) (utf8_encode cs)
     else if c < 2048 then
       map_option ((@) [192 + c div 64, 128 + c mod 64]) (utf8_encode cs)
     else if c < 65536 then
       (if 55296 \<le> c \<and> c < 57344 then None
        else map_option ((@) [224 + c div 4096, 128 + c div 64 mod 64, 128 + c mod 64])
               (utf8_encode cs))
     else if c < 1114112 then
       map_option
         ((@) [240 + c div 262144, 128 + c div 4096 mod 64, 128 + c div 64 mod 64,
               128 + c mod 64])
         (utf8_encode cs)
     else None)"

section \<open>The child process and its pipes\<close>

text \<open>
  What the program under test does is outside the runner; it is described by what the
  runner can observe through the two pipes: the bytes the child writes to its standard
  output and standard error (merged by \<open>stderr=sp.STDOUT\<close>) until it closes them, and
  how many writes into its standard input pipe succeed before the child's reading end is
  closed (\<open>None\<close>: the reading end stays open). Every blocking call is taken to return:
  a run in which the child hangs has no counterpart here.
\<close>

record child =
  child_output :: bytes
  child_accepts :: "nat option"

text \<open>
  The \<open>Popen\<close> object: \<open>p.stdin\<close> is an \<open>io.BufferedWriter\<close> (closed flag, buffer,
  bytes already passed to the pipe), \<open>p.stdout\<close> an \<open>io.BufferedReader\<close> (the bytes
  still to be read), and \<open>p.returncode\<close> stays \<open>None\<close> until \<open>poll\<close>, \<open>wait\<close> or
  \<open>communicate\<close> reaps the child.
\<close>

record proc =
  stdin_closed :: bool
  stdin_buffer :: bytes
  stdin_pipe :: bytes
  writes_left :: "nat option"
  stdout_pending :: bytes
  returncode :: "int option"

definition Popen :: "child \<Rightarrow> proc" where
  "Popen c =
     \<lparr>stdin_closed = False, stdin_buffer = [], stdin_pipe = [],
      writes_left = child_accepts c, stdout_pending = child_output c,
      returncode = None\<rparr>"

text \<open>One \<open>write(2)\<close> on the pipe: \<open>EPIPE\<close> (\<open>BrokenPipeError\<close>) once the reading end is
  closed.\<close>

definition raw_write :: "bytes \<Rightarrow> proc \<Rightarrow> exc + proc" where
  "raw_write b p =
     (case writes_left p of
        None \<Rightarrow> Inr (p\<lparr>stdin_pipe := stdin_pipe p @ b\<rparr>)
      | Some 0 \<Rightarrow> Inl BrokenPipeError
      | Some (Suc n) \<Rightarrow> Inr (p\<lparr>stdin_pipe := stdin_pipe p @ b, writes_left := Some n\<rparr>))"

text \<open>\<open>BufferedWriter.flush\<close>: nothing to do on an empty buffer.\<close>

definition flush :: "proc \<Rightarrow> exc + proc" where
  "flush p =
     (if stdin_buffer p = [] then Inr p
      else case raw_write (stdin_buffer p) p of
             Inl e \<Rightarrow> Inl e
           | Inr p' \<Rightarrow> Inr (p'\<lparr>stdin_buffer := []\<rparr>))"

text \<open>
  \<open>p.stdin.write(b)\<close> on a buffer of \<open>bufsize\<close> bytes: a closed stream raises
  \<open>ValueError\<close>; data that fits is only buffered; otherwise the buffer is flushed
  first, and data larger than the buffer goes straight to the pipe.
\<close>

definition stdin_write :: "nat \<Rightarrow> bytes \<Rightarrow> proc \<Rightarrow> exc + proc" where
  "stdin_write bufsize b p =
     (if stdin_closed p then Inl (ValueError (u ''write to closed file''))
      else if length (stdin_buffer p) + length b \<le> bufsize
        then Inr (p\<lparr>stdin_buffer := stdin_buffer p @ b\<rparr>)
      else case flush p of
             Inl e \<Rightarrow> Inl e
           | Inr p' \<Rightarrow>
               if bufsize < length b then raw_write b p'
               else Inr (p'\<lparr>stdin_buffer := b\<rparr>))"

text \<open>
  \<open>p.stdin.close()\<close>: no effect on a stream that is already closed; otherwise the buffer
  is flushed and the stream is closed, also when the flush raises.
\<close>

definition stdin_close :: "proc \<Rightarrow> exc option \<times> proc" where
  "stdin_close p =
     (if stdin_closed p then (None, p)
      else case flush p of
             Inl e \<Rightarrow> (Some e, p\<lparr>stdin_closed := True\<rparr>)
           | Inr p' \<Rightarrow> (None, p'\<lparr>stdin_closed := True\<rparr>))"

text \<open>\<open>p.stdout.readline()\<close>: the bytes up to and including the next newline, or up to the
  end of the stream; \<open>b""\<close> at the end of the stream.\<close>

definition split_line :: "bytes \<Rightarrow> bytes \<times> bytes" where
  "split_line bs =
     (case dropWhile (\<lambda>b. b \<noteq> NL) bs of
        [] \<Rightarrow> (bs, [])
      | nl # r \<Rightarrow> (takeWhile (\<lambda>b. b \<noteq> NL) bs @ [nl], r))"

definition readline :: "proc \<Rightarrow> bytes \<times> proc" where
  "readline p = (fst (split_line (stdout_pending p)),
                 p\<lparr>stdout_pending := snd (split_line (stdout_pending p))\<rparr>)"


section \<open>The environment of a run\<close>

text \<open>
  The operating-system functions the program calls, as the environment answers them:
  \<open>os.path.abspath\<close>, \<open>open(path).readlines()\<close>, \<open>os.listdir\<close>, \<open>os.path.isdir\<close>,
  \<open>os.path.exists\<close>, whether \<open>shutil.which\<close> finds a command, the behaviour of the
  child that \<open>Popen(command)\<close> starts for a test file, the size of the buffer of
  \<open>p.stdin\<close>, and the text of the two Unicode errors (composed by Python's codec).
\<close>

record world =
  abspath :: "str \<Rightarrow> str"
  readlines :: "str \<Rightarrow> str list"
  listdir :: "str \<Rightarrow> str list"
  isdir :: "str \<Rightarrow> bool"
  path_exists :: "str \<Rightarrow> bool"
  which :: "str \<Rightarrow> bool"
  spawn :: "str list \<Rightarrow> str \<Rightarrow> child"
  bufsize :: nat
  codec_message :: "exc \<Rightarrow> str"

section \<open>The script parser\<close>

datatype kind = Input | EndInput | Output | EndOutput

type_synonym directive = "kind \<times> str \<times> str"

definition KINDS :: "(str \<times> kind) list" where
  "KINDS =
     [(u ''>>> '', Input),
      (u ''!>>'', EndInput),
      (u ''<<< '', Output),
      (u ''!<<'', EndOutput)]"

text \<open>
  The kinds \<open>"input"\<close>, \<open>"end_input"\<close>, \<open>"output"\<close> and \<open>"end_output"\<close> are
  the four constructors of \<open>kind\<close>.
\<close>

text \<open>
  The loop over the keys of \<open>KINDS\<close>: a later matching token replaces an earlier one.
  The result is \<open>(kind_token, s)\<close>, or \<open>None\<close> when no token matched.
\<close>

fun find_token :: "str \<Rightarrow> str list \<Rightarrow> (str \<times> str) option \<Rightarrow> (str \<times> str) option" where
  "find_token line [] found = found"
| "find_token line (maybe_this_kind_token # tokens) found =
     find_token line tokens
       (if startswith line maybe_this_kind_token
        then (let len_token = length maybe_this_kind_token
              in Some (take len_token line, drop len_token line))
        else found)"

definition invalid_test :: "str \<Rightarrow> str" where
  "invalid_test origin =
     [NL] @ u ''Invalid test at '' @ origin @ u ''. Expected line to start with one of ''
       @ join (u '', '') (map fst KINDS) @ u ''.''"

text \<open>
  The generator \<open>read_test\<close>, as the sequence of what it produces when it is driven to
  its end: a directive per \<open>yield\<close>, and last the exception if it raises. The caller
  takes the elements one at a time and may stop early.
\<close>

fun read_test_lines :: "str \<Rightarrow> nat \<Rightarrow> str list \<Rightarrow> (exc + directive) list" where
  "read_test_lines absolute_testpath idx_line [] = []"
| "read_test_lines absolute_testpath idx_line (line # rest) =
     (if startswith line (u ''#'') then read_test_lines absolute_testpath (idx_line + 1) rest
      else if strip line = [] then read_test_lines absolute_testpath (idx_line + 1) rest
      else
        (let origin = absolute_testpath @ u '':'' @ str_nat (idx_line + 1) in
         case find_token line (map fst KINDS) None of
           None \<Rightarrow> [Inl (ValueError (invalid_test origin))]
         | Some (kind_token, s) \<Rightarrow>
             (case map_of KINDS kind_token of
                None \<Rightarrow> [Inl (KeyError kind_token)]
              | Some kind \<Rightarrow>
                  Inr (kind, s, origin)
                    # read_test_lines absolute_testpath (idx_line + 1) rest)))"

definition read_test :: "world \<Rightarrow> str \<Rightarrow> (exc + directive) list" where
  "read_test w path_test = read_test_lines (abspath w path_test) 0 (readlines w path_test)"

section \<open>The test executor\<close>

text \<open>
  One pass through the body of the loop of \<open>run_test\<close>: either the loop goes on with
  the next directive, or \<open>run_test\<close> returns, or an exception leaves it.
\<close>

datatype outcome = Continue proc "str list" | Return bool "str list" proc

fun run_test_body :: "world \<Rightarrow> proc \<Rightarrow> str list \<Rightarrow> directive \<Rightarrow> exc + outcome" where
  "run_test_body w p result_lines (Input, s, origin) =
     (case utf8_encode s of
        None \<Rightarrow> Inl UnicodeEncodeError
      | Some b \<Rightarrow>
          (case stdin_write (bufsize w) b p of
             Inl e \<Rightarrow> Inl e
           | Inr p' \<Rightarrow> Inr (Continue p' result_lines)))"
| "run_test_body w p result_lines (EndInput, s, origin) =
     (case stdin_close p of
        (None, p') \<Rightarrow> Inr (Continue p' result_lines)
      | (Some BrokenPipeError, p') \<Rightarrow>
          Inr (Return False
                 (result_lines
                    @ [u ''At '' @ origin,
                       u ''Tried to close the standard input but it is already closed!''])
                 p')
      | (Some e, p') \<Rightarrow> Inl e)"
| "run_test_body w p result_lines (Output, s, origin) =
     (case readline p of
        (linebytes, p') \<Rightarrow>
          (case utf8_decode linebytes of
             None \<Rightarrow> Inl UnicodeDecodeError
           | Some line \<Rightarrow>
               if line \<noteq> s then
                 (let expected = slice_to_last s; got = slice_to_last line in
                  Inr (Return False
                         (result_lines
                            @ [u ''At '' @ origin,
                               u ''Expected'' @ [TAB, QUOTE] @ expected @ [QUOTE],
                               u ''Got'' @ [TAB, TAB, QUOTE] @ got @ [QUOTE]])
                         p'))
               else Inr (Continue p' result_lines)))"
| "run_test_body w p result_lines (EndOutput, s, origin) =
     (case readline p of
        (linebytes, p') \<Rightarrow>
          if linebytes = [] then Inr (Continue p' result_lines)
          else
            (case utf8_decode linebytes of
               None \<Rightarrow> Inl UnicodeDecodeError
             | Some line \<Rightarrow>
                 (let got = slice_to_last line in
                  Inr (Return False
                         (result_lines
                            @ [u ''Test failed at '' @ origin,
                               u ''Expected End-Of-File'',
                               u ''Got'' @ [TAB, TAB, QUOTE] @ got @ [QUOTE]])
                         p'))))"

text \<open>
  The loop of \<open>run_test\<close> over what \<open>read_test\<close> produces. The result is the pair that
  \<open>run_test\<close> returns together with the state in which it leaves the \<open>Popen\<close> object.
\<close>

fun run_test_loop ::
  "world \<Rightarrow> proc \<Rightarrow> str list \<Rightarrow> (exc + directive) list \<Rightarrow> exc + (bool \<times> str list \<times> proc)"
where
  "run_test_loop w p result_lines [] = Inr (True, result_lines, p)"
| "run_test_loop w p result_lines (Inl e # rest) = Inl e"
| "run_test_loop w p result_lines (Inr d # rest) =
     (case run_test_body w p result_lines d of
        Inl e \<Rightarrow> Inl e
      | Inr (Return passed result_lines' p') \<Rightarrow> Inr (passed, result_lines', p')
      | Inr (Continue p' result_lines') \<Rightarrow> run_test_loop w p' result_lines' rest)"

definition run_test :: "world \<Rightarrow> str \<Rightarrow> str list \<Rightarrow> exc + (bool \<times> str list \<times> proc)" where
  "run_test w path_test command =
     run_test_loop w (Popen (spawn w command path_test)) [] (read_test w path_test)"


section \<open>The subcommands and \<open>main\<close>\<close>

text \<open>
  What a subcommand does to the outside, in order: text written to standard output or to
  standard error (a \<open>print\<close> call without \<open>end=""\<close> writes its text and a newline), and
  a file written by \<open>cmd_new\<close>. A subcommand returns these and the exception
  that left it, if one did.
\<close>

datatype effect = Stdout str | Stderr str | WriteFile str str

definition find_testpaths_in :: "world \<Rightarrow> str \<Rightarrow> str list" where
  "find_testpaths_in w path_root =
     filter (\<lambda>p. endswith p (u ''.tstl'') \<and> \<not> isdir w p) (listdir w path_root)"

text \<open>The loop of \<open>cmd_run\<close> over the test files, with the effects so far and
  \<open>num_tests_passed\<close> as its state.\<close>

fun cmd_run_loop ::
  "world \<Rightarrow> str list \<Rightarrow> str list \<Rightarrow> effect list \<Rightarrow> nat \<Rightarrow> effect list \<times> nat \<times> exc option"
where
  "cmd_run_loop w command [] out num_tests_passed = (out, num_tests_passed, None)"
| "cmd_run_loop w command (path_test # paths) out num_tests_passed =
     (let out1 = out @ [Stdout ([NL] @ u ''Running test '' @ path_test @ u '' ... '')] in
      case run_test w path_test command of
        Inl e \<Rightarrow> (out1, num_tests_passed, Some e)
      | Inr (passed, result, p) \<Rightarrow>
          if \<not> passed then
            cmd_run_loop w command paths
              (out1 @ [Stdout (u ''FAILED.'' @ [NL])]
                 @ map (\<lambda>line. Stdout ([TAB] @ line @ [NL])) result
                 @ [Stdout [NL]])
              num_tests_passed
          else
            cmd_run_loop w command paths
              (out1 @ [Stdout (u ''passed.'' @ [NL])] @ [Stdout [NL]])
              (num_tests_passed + 1))"

definition cmd_run :: "world \<Rightarrow> str list \<Rightarrow> effect list \<times> exc option" where
  "cmd_run w args =
     (if length args \<le> 1 then
        (case args of
           [] \<Rightarrow>
             ([Stdout (u ''Invalid number of parameters provided to subcommand 'run'.'' @ [NL])],
              Some IndexError)
         | arg0 # _ \<Rightarrow>
             ([Stdout (u ''Invalid number of parameters provided to subcommand 'run'.'' @ [NL]),
               Stdout (u ''USAGE: '' @ arg0 @ u '' <command to test>'' @ [NL])],
              None))
      else
        (let command = tl args in
         if \<not> which w (hd command) then
           ([Stderr (u ''Error: ''  @ [39] @ hd command @ [39] @ u '' is not executable. Exiting.''
                      @ [NL])],
            None)
         else
           (let paths_test = find_testpaths_in w (u ''.'');
                num_tests_total = length paths_test
            in case cmd_run_loop w command paths_test [] 0 of
                 (out, num_tests_passed, Some e) \<Rightarrow> (out, Some e)
               | (out, num_tests_passed, None) \<Rightarrow>
                   (out @ [Stdout (u ''['' @ str_nat num_tests_passed @ u ''/''
                                    @ str_nat num_tests_total @ u ''] tests passed.'' @ [NL])],
                    None))))"

definition cmd_new :: "world \<Rightarrow> str list \<Rightarrow> effect list \<times> exc option" where
  "cmd_new w args =
     (let filename = (if length args > 1 then args ! 1 else u ''basic.tstl'') in
      if path_exists w filename then
        ([Stdout (filename @ u '' already exists.'' @ [NL])], None)
      else
        ([WriteFile filename
            (u ''# Test for wc'' @ [NL]
               @ u ''>>> Lorem ipsum dolor sit amet.'' @ [NL]
               @ u ''!>>'' @ [NL]
               @ u ''<<<       1       6      32'' @ [NL]
               @ u ''!<<'' @ [NL]),
          Stdout (u ''An example test was created in '' @ filename @ u ''.'' @ [NL])],
         None))"

definition SUBCOMMANDS :: "(str \<times> (world \<Rightarrow> str list \<Rightarrow> effect list \<times> exc option)) list" where
  "SUBCOMMANDS =
     [(u ''run'', cmd_run),
      (u ''r'', cmd_run),
      (u ''new'', cmd_new),
      (u ''init'', cmd_new),
      (u ''i'', cmd_new)]"

definition USAGE :: str where
  "USAGE =
     u ''USAGE:'' @ [NL]
     @ u ''    tstl [SUBCOMMAND]'' @ [NL]
     @ [NL]
     @ u ''Subcommands:'' @ [NL]
     @ u ''    run, r     run the tests'' @ [NL]
     @ u ''    init, i    create an initial test file'' @ [NL]
     @ [NL]
     @ u ''Examples:'' @ [NL]
     @ u ''    tstl run wc                         run the tests in the current directory'' @ [NL]
     @ u ''                                        on the command wc'' @ [NL]
     @ u ''    tstl run python3 ./myscript.py      run the tests in the current directory'' @ [NL]
     @ u ''                                        on the command '' @ [39]
     @ u ''python3 ./myscript.py'' @ [39] @ [NL]"

text \<open>\<open>str(e)\<close> for an exception that \<open>except ValueError\<close> catches.\<close>

fun str_exc :: "world \<Rightarrow> exc \<Rightarrow> str" where
  "str_exc w (ValueError message) = message"
| "str_exc w e = codec_message w e"

text \<open>
  \<open>main\<close>, on \<open>sys.argv\<close>: the effects of the run and the exception that ends the
  program, if one is not handled.
\<close>

definition main :: "world \<Rightarrow> str list \<Rightarrow> effect list \<times> exc option" where
  "main w argv =
     (if length argv \<le> 1 then ([Stderr (USAGE @ [NL])], None)
      else
        (let name_subcommand = argv ! 1 in
         case map_of SUBCOMMANDS name_subcommand of
           None \<Rightarrow> ([], Some (KeyError name_subcommand))
         | Some subcommand \<Rightarrow>
             (let args_subcommand = tl argv in
              case subcommand w args_subcommand of
                (out, None) \<Rightarrow> (out, None)
              | (out, Some e) \<Rightarrow>
                  if is_ValueError e then (out @ [Stdout (str_exc w e @ [NL])], None)
                  else (out, Some e))))"


section \<open>An example environment\<close>

text \<open>
  A directory \<open>/t\<close> that holds the given test files, each with its lines and with the
  behaviour of the child started for it; every command is found, and the buffer of
  \<open>p.stdin\<close> has 8192 bytes.
\<close>

definition example_world :: "(str \<times> str list \<times> child) list \<Rightarrow> world" where
  "example_world tests =
     \<lparr>abspath = (\<lambda>path. u ''/t/'' @ path),
      readlines = (\<lambda>path. case map_of tests path of None \<Rightarrow> [] | Some (ls, c) \<Rightarrow> ls),
      listdir = (\<lambda>path. map fst tests),
      isdir = (\<lambda>path. False),
      path_exists = (\<lambda>path. List.member (map fst tests) path),
      which = (\<lambda>cmd. True),
      spawn = (\<lambda>command path.
                 case map_of tests path of
                   None \<Rightarrow> \<lparr>child_output = [], child_accepts = None\<rparr>
                 | Some (ls, c) \<Rightarrow> c),
      bufsize = 8192,
      codec_message = (\<lambda>e. u ''codec error'')\<rparr>"

text \<open>A child that writes the given text and reads its input to the end.\<close>

definition prints :: "str \<Rightarrow> child" where
  "prints out = \<lparr>child_output = out, child_accepts = None\<rparr>"

text \<open>A child that writes the given text and exits without reading its input.\<close>

definition prints_and_exits :: "str \<Rightarrow> child" where
  "prints_and_exits out = \<lparr>child_output = out, child_accepts = Some 0\<rparr>"



definition double_close_test :: "(str \<times> str list \<times> child) list" where
  "double_close_test =
     [(u ''a.tstl'',
       [u ''!>>'' @ [NL], u ''!>>'' @ [NL], u ''<<< x'' @ [NL]],
       prints (u ''y'' @ [NL]))]"

definition no_newline_test :: "(str \<times> str list \<times> child) list" where
  "no_newline_test =
     [(u ''a.tstl'', [u ''<<< abc'' @ [NL]], prints (u ''abd''))]"

definition syntax_error_tests :: "(str \<times> str list \<times> child) list" where
  "syntax_error_tests =
     [(u ''a.tstl'', [u ''%%% nonsense'' @ [NL]], prints []),
      (u ''b.tstl'', [u ''!<<'' @ [NL]], prints [])]"


definition mixed_tests :: "(str \<times> str list \<times> child) list" where
  "mixed_tests =
     [(u ''p.tstl'', [u ''!<<'' @ [NL]], prints []),
      (u ''q.tstl'',
       [u ''# comment'' @ [NL], [NL], u ''>>> hi'' @ [NL], u ''%%% nonsense'' @ [NL], u ''!<<'' @ [NL]],
       prints []),
      (u ''r.tstl'', [u ''!<<'' @ [NL]], prints [])]"

definition undecodable_output_test :: "(str \<times> str list \<times> child) list" where
  "undecodable_output_test =
     [(u ''a.tstl'', [u ''<<< x'' @ [NL]], prints [255, NL])]"

definition undecodable_extra_test :: "(str \<times> str list \<times> child) list" where
  "undecodable_extra_test =
     [(u ''a.tstl'', [u ''!<<'' @ [NL]], prints [255, NL])]"

definition two_bad_lines_test :: "(str \<times> str list \<times> child) list" where
  "two_bad_lines_test =
     [(u ''a.tstl'', [u ''%%% one'' @ [NL], u ''%%% two'' @ [NL]], prints [])]"

section \<open>The vocabulary of the specification\<close>

text \<open>
  A line is skipped when it starts with the comment marker or is blank, and it matches a
  token when it starts with one of the four keys of \<open>KINDS\<close>.
\<close>

definition is_skipped :: "str \<Rightarrow> bool" where
  "is_skipped line = (startswith line (u ''#'') \<or> strip line = [])"

definition matches_token :: "str \<Rightarrow> bool" where
  "matches_token line = list_ex (startswith line) (map fst KINDS)"

text \<open>
  \<open>consumed w p ds p'\<close>: started in state \<open>p\<close>, the loop of \<open>run_test\<close> goes through all
  the directives \<open>ds\<close> in order, none of them takes a failure branch or raises, and the
  process is left in state \<open>p'\<close>.
\<close>

inductive consumed :: "world \<Rightarrow> proc \<Rightarrow> directive list \<Rightarrow> proc \<Rightarrow> bool" for w where
  consumed_Nil: "consumed w p [] p"
| consumed_Cons:
    "run_test_body w p [] d = Inr (Continue p' []) \<Longrightarrow> consumed w p' ds p''
       \<Longrightarrow> consumed w p (d # ds) p''"

code_pred consumed .

section \<open>Facts about the library functions\<close>

lemmas text_defs = u_def NL_def TAB_def QUOTE_def

lemmas world_defs = example_world_def prints_def prints_and_exits_def

lemmas parser_defs = read_test_def KINDS_def invalid_test_def strip_def isspace_def
  is_skipped_def matches_token_def

lemmas pipe_defs = Popen_def readline_def split_line_def stdin_close_def stdin_write_def
  flush_def raw_write_def cont_def slice_to_last_def

lemma startswith_iff: "startswith line t \<longleftrightarrow> take (length t) line = t"
  by (induction line t rule: startswith.induct) auto

lemma startswith_append: "startswith line t \<Longrightarrow> line = t @ drop (length t) line"
  by (metis append_take_drop_id startswith_iff)

lemma split_line_Nil [simp]: "split_line [] = ([], [])"
  by (simp add: split_line_def)

lemma fst_split_line_Nil: "fst (split_line bs) = [] \<longleftrightarrow> bs = []"
  by (cases bs) (auto simp: split_line_def split: list.splits)

lemma split_line_append: "fst (split_line bs) @ snd (split_line bs) = bs"
proof (cases "dropWhile (\<lambda>b. b \<noteq> NL) bs")
  case Nil
  show ?thesis unfolding split_line_def Nil by simp
next
  case (Cons nl r)
  have "takeWhile (\<lambda>b. b \<noteq> NL) bs @ dropWhile (\<lambda>b. b \<noteq> NL) bs = bs"
    by (rule takeWhile_dropWhile_id)
  then show ?thesis unfolding split_line_def Cons by simp
qed

lemma split_line_newline:
  assumes "NL \<notin> set l"
  shows "split_line (l @ NL # r) = (l @ [NL], r)"
proof -
  have "dropWhile (\<lambda>b. b \<noteq> NL) (l @ NL # r) = NL # r"
    using assms by (auto simp add: dropWhile_append3)
  moreover have "takeWhile (\<lambda>b. b \<noteq> NL) (l @ NL # r) = l"
    using assms by (auto simp add: takeWhile_tail)
  ultimately show ?thesis by (simp add: split_line_def)
qed

lemma split_line_no_newline:
  assumes "NL \<notin> set l"
  shows "split_line l = (l, [])"
proof -
  have d: "dropWhile (\<lambda>b. b \<noteq> NL) l = []"
    using assms by auto
  show ?thesis unfolding split_line_def d by simp
qed

lemma stdout_pending_same: "stdout_pending p = bs \<Longrightarrow> p\<lparr>stdout_pending := bs\<rparr> = p"
  by (cases p) simp


section \<open>Output directives\<close>

text \<open>
  C2, as claimed, fails: the child writes the bytes \<open>FF 0A\<close>, a line that is not UTF-8.
  The \<open>Output\<close> directive reads it, \<open>decode\<close> raises \<open>UnicodeDecodeError\<close>, and
  \<open>run_test\<close> neither returns \<open>passed = False\<close> nor goes on to the next directive.
\<close>

theorem output_directive_undecodable_counterexample:
  "run_test (example_world undecodable_output_test) (u ''a.tstl'') [u ''prog'']
   = Inl UnicodeDecodeError"
  by (simp add: run_test_def undecodable_output_test_def world_defs text_defs parser_defs
        pipe_defs str_nat.simps)

text \<open>
  C2, as amended. An \<open>Output\<close> directive reads exactly one line from the merged output
  of the child (the bytes up to and including the next newline, or up to the end of the
  stream). If the line is not valid UTF-8, \<open>UnicodeDecodeError\<close> leaves \<open>run_test\<close>.
  Otherwise the whole decoded line, newline included, is compared with the payload. When
  they are equal the loop goes on with the next directive, the stream advanced by that
  one line. When they differ \<open>run_test\<close> returns at once with \<open>passed = False\<close> and
  exactly three lines of diagnostics, whatever directives follow: the location, the
  expected text and the actual text, where a payload and a line that end in a newline
  are shown without it and the empty line read at the end of the stream is shown as
  empty. (What is shown for a text that does not end in a newline is left open here.)
\<close>

theorem output_directive_on_text_line:
  "(utf8_decode (fst (split_line (stdout_pending p))) = None \<longrightarrow>
      run_test_loop w p [] (Inr (Output, s, origin) # rest) = Inl UnicodeDecodeError)
   \<and> (\<forall>line. utf8_decode (fst (split_line (stdout_pending p))) = Some line \<longrightarrow>
         (if line = s
          then run_test_loop w p [] (Inr (Output, s, origin) # rest) =
                 run_test_loop w (p\<lparr>stdout_pending := snd (split_line (stdout_pending p))\<rparr>) [] rest
          else (\<exists>expected got.
                  run_test_loop w p [] (Inr (Output, s, origin) # rest) =
                    Inr (False,
                         [u ''At '' @ origin,
                          u ''Expected'' @ [TAB, QUOTE] @ expected @ [QUOTE],
                          u ''Got'' @ [TAB, TAB, QUOTE] @ got @ [QUOTE]],
                         p\<lparr>stdout_pending := snd (split_line (stdout_pending p))\<rparr>)
                  \<and> (\<forall>t. s = t @ [NL] \<longrightarrow> expected = t)
                  \<and> (\<forall>t. line = t @ [NL] \<longrightarrow> got = t)
                  \<and> (line = [] \<longrightarrow> got = []))))"
proof (intro conjI allI impI)
  assume "utf8_decode (fst (split_line (stdout_pending p))) = None"
  then show "run_test_loop w p [] (Inr (Output, s, origin) # rest) = Inl UnicodeDecodeError"
    by (simp add: readline_def)
next
  fix line
  assume d: "utf8_decode (fst (split_line (stdout_pending p))) = Some line"
  show "if line = s
        then run_test_loop w p [] (Inr (Output, s, origin) # rest) =
               run_test_loop w (p\<lparr>stdout_pending := snd (split_line (stdout_pending p))\<rparr>) [] rest
        else (\<exists>expected got.
                run_test_loop w p [] (Inr (Output, s, origin) # rest) =
                  Inr (False,
                       [u ''At '' @ origin,
                        u ''Expected'' @ [TAB, QUOTE] @ expected @ [QUOTE],
                        u ''Got'' @ [TAB, TAB, QUOTE] @ got @ [QUOTE]],
                       p\<lparr>stdout_pending := snd (split_line (stdout_pending p))\<rparr>)
                \<and> (\<forall>t. s = t @ [NL] \<longrightarrow> expected = t)
                \<and> (\<forall>t. line = t @ [NL] \<longrightarrow> got = t)
                \<and> (line = [] \<longrightarrow> got = []))"
  proof (cases "line = s")
    case True
    with d show ?thesis by (simp add: readline_def)
  next
    case False
    have "run_test_loop w p [] (Inr (Output, s, origin) # rest) =
            Inr (False,
                 [u ''At '' @ origin,
                  u ''Expected'' @ [TAB, QUOTE] @ slice_to_last s @ [QUOTE],
                  u ''Got'' @ [TAB, TAB, QUOTE] @ slice_to_last line @ [QUOTE]],
                 p\<lparr>stdout_pending := snd (split_line (stdout_pending p))\<rparr>)"
      using d False by (simp add: readline_def)
    moreover have "\<forall>t. s = t @ [NL] \<longrightarrow> slice_to_last s = t"
      by (simp add: slice_to_last_def)
    moreover have "\<forall>t. line = t @ [NL] \<longrightarrow> slice_to_last line = t"
      by (simp add: slice_to_last_def)
    moreover have "line = [] \<longrightarrow> slice_to_last line = []"
      by (simp add: slice_to_last_def)
    ultimately show ?thesis
      using False by auto
  qed
qed

theorem output_directive_on_text_line_witness:
  "utf8_decode (fst (split_line (stdout_pending (Popen (prints (u ''yes'' @ [NL] @ u ''more'' @ [NL]))))))
     = Some (u ''yes'' @ [NL])
   \<and> run_test_loop (example_world []) (Popen (prints (u ''yes'' @ [NL] @ u ''more'' @ [NL]))) []
       [Inr (Output, u ''no'' @ [NL], u ''/t/a.tstl:1''), Inr (Output, u ''never'' @ [NL], u ''/t/a.tstl:2'')]
     = Inr (False,
            [u ''At '' @ u ''/t/a.tstl:1'',
             u ''Expected'' @ [TAB, QUOTE] @ u ''no'' @ [QUOTE],
             u ''Got'' @ [TAB, TAB, QUOTE] @ u ''yes'' @ [QUOTE]],
            (Popen (prints (u ''yes'' @ [NL] @ u ''more'' @ [NL])))\<lparr>stdout_pending := u ''more'' @ [NL]\<rparr>)
   \<and> run_test_loop (example_world []) (Popen (prints (u ''yes'' @ [NL] @ u ''more'' @ [NL]))) []
       [Inr (Output, u ''yes'' @ [NL], u ''/t/a.tstl:1'')]
     = Inr (True, [],
            (Popen (prints (u ''yes'' @ [NL] @ u ''more'' @ [NL])))\<lparr>stdout_pending := u ''more'' @ [NL]\<rparr>)
   \<and> utf8_decode (fst (split_line (stdout_pending (Popen (prints [255, NL]))))) = None
   \<and> run_test_loop (example_world []) (Popen (prints [255, NL])) []
       [Inr (Output, u ''x'' @ [NL], u ''/t/a.tstl:1'')]
     = Inl UnicodeDecodeError"
proof -
  let ?p = "Popen (prints (u ''yes'' @ [NL] @ u ''more'' @ [NL]))"
  let ?w = "example_world []"
  have h: "utf8_decode (fst (split_line (stdout_pending ?p))) = Some (u ''yes'' @ [NL])"
    by (simp add: world_defs text_defs pipe_defs)
  have r: "snd (split_line (stdout_pending ?p)) = u ''more'' @ [NL]"
    by (simp add: world_defs text_defs pipe_defs)
  have ne: "u ''yes'' @ [NL] \<noteq> u ''no'' @ [NL]"
    by (simp add: text_defs)
  have b: "utf8_decode (fst (split_line (stdout_pending (Popen (prints [255, NL]))))) = None"
    by (simp add: world_defs text_defs pipe_defs)
  note t1 = output_directive_on_text_line [of ?p ?w "u ''no'' @ [NL]" "u ''/t/a.tstl:1''"
        "[Inr (Output, u ''never'' @ [NL], u ''/t/a.tstl:2'')]"]
  note t2 = output_directive_on_text_line [of ?p ?w "u ''yes'' @ [NL]" "u ''/t/a.tstl:1''" "[]"]
  note t3 = output_directive_on_text_line [of "Popen (prints [255, NL])" ?w "u ''x'' @ [NL]"
        "u ''/t/a.tstl:1''" "[]"]
  from t1 h ne obtain expected got where
    m: "run_test_loop ?w ?p []
          [Inr (Output, u ''no'' @ [NL], u ''/t/a.tstl:1''), Inr (Output, u ''never'' @ [NL], u ''/t/a.tstl:2'')]
        = Inr (False,
               [u ''At '' @ u ''/t/a.tstl:1'',
                u ''Expected'' @ [TAB, QUOTE] @ expected @ [QUOTE],
                u ''Got'' @ [TAB, TAB, QUOTE] @ got @ [QUOTE]],
               ?p\<lparr>stdout_pending := snd (split_line (stdout_pending ?p))\<rparr>)"
    and e: "\<forall>t. u ''no'' @ [NL] = t @ [NL] \<longrightarrow> expected = t"
    and g: "\<forall>t. u ''yes'' @ [NL] = t @ [NL] \<longrightarrow> got = t"
    by auto
  from e have e': "expected = u ''no''" by blast
  from g have g': "got = u ''yes''" by blast
  from t2 h have ok: "run_test_loop ?w ?p [] [Inr (Output, u ''yes'' @ [NL], u ''/t/a.tstl:1'')]
      = Inr (True, [], ?p\<lparr>stdout_pending := snd (split_line (stdout_pending ?p))\<rparr>)"
    by simp
  from t3 b have bad: "run_test_loop ?w (Popen (prints [255, NL])) []
       [Inr (Output, u ''x'' @ [NL], u ''/t/a.tstl:1'')] = Inl UnicodeDecodeError"
    by blast
  from h m e' g' ok b bad show ?thesis
    unfolding r by (intro conjI) simp_all
qed

text \<open>
  C10. When the output of the child is already at its end, an \<open>Output\<close> directive with a
  non-empty payload fails through the ordinary mismatch branch: \<open>passed = False\<close> and
  the three mismatch lines, with the empty string as the actual text.
\<close>

theorem output_at_end_of_stream:
  assumes "stdout_pending p = []" and "s \<noteq> []"
  shows "run_test_loop w p [] (Inr (Output, s, origin) # rest) =
     Inr (False,
          [u ''At '' @ origin,
           u ''Expected'' @ [TAB, QUOTE] @ slice_to_last s @ [QUOTE],
           u ''Got'' @ [TAB, TAB, QUOTE] @ [] @ [QUOTE]],
          p)"
  using assms by (auto simp add: readline_def slice_to_last_def stdout_pending_same)

theorem output_at_end_of_stream_witness:
  "stdout_pending (Popen (prints [])) = []
   \<and> u ''hello'' @ [NL] \<noteq> []
   \<and> run_test_loop (example_world []) (Popen (prints [])) []
       [Inr (Output, u ''hello'' @ [NL], u ''/t/a.tstl:4'')]
     = Inr (False,
            [u ''At /t/a.tstl:4'',
             u ''Expected'' @ [TAB, QUOTE] @ u ''hello'' @ [QUOTE],
             u ''Got'' @ [TAB, TAB, QUOTE, QUOTE]],
            Popen (prints []))"
proof -
  have h: "stdout_pending (Popen (prints [])) = []"
    by (simp add: world_defs pipe_defs)
  have n: "u ''hello'' @ [NL] \<noteq> []"
    by simp
  show ?thesis
    using h n output_at_end_of_stream [OF h n, of "example_world []" "u ''/t/a.tstl:4''" "[]"]
    by (simp add: slice_to_last_def u_def)
qed

section \<open>EndOutput directives\<close>

text \<open>
  C4, as claimed, fails: the script expects the end of the output and the child writes
  the bytes \<open>FF 0A\<close>. The read yields a non-empty line, \<open>decode\<close> raises
  \<open>UnicodeDecodeError\<close>, and \<open>run_test\<close> does not return \<open>passed = False\<close>.
\<close>

theorem end_output_undecodable_counterexample:
  "run_test (example_world undecodable_extra_test) (u ''a.tstl'') [u ''prog'']
   = Inl UnicodeDecodeError"
  by (simp add: run_test_def undecodable_extra_test_def world_defs text_defs parser_defs
        pipe_defs str_nat.simps)

text \<open>
  C4, as amended. An \<open>EndOutput\<close> directive reads one more line. When the read yields
  no data (the stream is at its end) the loop goes on with the next directive. When it
  yields a line that is not valid UTF-8, \<open>UnicodeDecodeError\<close> leaves \<open>run_test\<close>.
  When it yields a line of valid UTF-8, \<open>run_test\<close> returns at once with
  \<open>passed = False\<close> and exactly three lines of diagnostics, whatever directives follow:
  the location, \<open>Expected End-Of-File\<close>, and the extra line, shown without its newline
  when it ends in one. (What is shown for a line that does not end in a newline is left
  open here.)
\<close>

theorem end_output_directive_on_text_line:
  "(stdout_pending p = [] \<longrightarrow>
      run_test_loop w p [] (Inr (EndOutput, s, origin) # rest) = run_test_loop w p [] rest)
   \<and> (stdout_pending p \<noteq> [] \<and> utf8_decode (fst (split_line (stdout_pending p))) = None \<longrightarrow>
        run_test_loop w p [] (Inr (EndOutput, s, origin) # rest) = Inl UnicodeDecodeError)
   \<and> (\<forall>line. stdout_pending p \<noteq> [] \<and> utf8_decode (fst (split_line (stdout_pending p))) = Some line \<longrightarrow>
         (\<exists>got.
            run_test_loop w p [] (Inr (EndOutput, s, origin) # rest) =
              Inr (False,
                   [u ''Test failed at '' @ origin,
                    u ''Expected End-Of-File'',
                    u ''Got'' @ [TAB, TAB, QUOTE] @ got @ [QUOTE]],
                   p\<lparr>stdout_pending := snd (split_line (stdout_pending p))\<rparr>)
            \<and> (\<forall>t. line = t @ [NL] \<longrightarrow> got = t)))"
proof (intro conjI allI impI)
  assume "stdout_pending p = []"
  then show "run_test_loop w p [] (Inr (EndOutput, s, origin) # rest) = run_test_loop w p [] rest"
    by (simp add: readline_def stdout_pending_same)
next
  assume "stdout_pending p \<noteq> [] \<and> utf8_decode (fst (split_line (stdout_pending p))) = None"
  then show "run_test_loop w p [] (Inr (EndOutput, s, origin) # rest) = Inl UnicodeDecodeError"
    by (simp add: readline_def fst_split_line_Nil)
next
  fix line
  assume a: "stdout_pending p \<noteq> [] \<and> utf8_decode (fst (split_line (stdout_pending p))) = Some line"
  then have "run_test_loop w p [] (Inr (EndOutput, s, origin) # rest) =
      Inr (False,
           [u ''Test failed at '' @ origin,
            u ''Expected End-Of-File'',
            u ''Got'' @ [TAB, TAB, QUOTE] @ slice_to_last line @ [QUOTE]],
           p\<lparr>stdout_pending := snd (split_line (stdout_pending p))\<rparr>)"
    by (simp add: readline_def fst_split_line_Nil)
  moreover have "\<forall>t. line = t @ [NL] \<longrightarrow> slice_to_last line = t"
    by (simp add: slice_to_last_def)
  ultimately show "\<exists>got.
            run_test_loop w p [] (Inr (EndOutput, s, origin) # rest) =
              Inr (False,
                   [u ''Test failed at '' @ origin,
                    u ''Expected End-Of-File'',
                    u ''Got'' @ [TAB, TAB, QUOTE] @ got @ [QUOTE]],
                   p\<lparr>stdout_pending := snd (split_line (stdout_pending p))\<rparr>)
            \<and> (\<forall>t. line = t @ [NL] \<longrightarrow> got = t)"
    by blast
qed

theorem end_output_directive_on_text_line_witness:
  "stdout_pending (Popen (prints (u ''extra'' @ [NL] @ u ''more'' @ [NL]))) \<noteq> []
   \<and> utf8_decode (fst (split_line (stdout_pending (Popen (prints (u ''extra'' @ [NL] @ u ''more'' @ [NL]))))))
       = Some (u ''extra'' @ [NL])
   \<and> run_test_loop (example_world []) (Popen (prints (u ''extra'' @ [NL] @ u ''more'' @ [NL]))) []
       [Inr (EndOutput, [NL], u ''/t/a.tstl:5''), Inr (Output, u ''x'' @ [NL], u ''/t/a.tstl:6'')]
     = Inr (False,
            [u ''Test failed at '' @ u ''/t/a.tstl:5'',
             u ''Expected End-Of-File'',
             u ''Got'' @ [TAB, TAB, QUOTE] @ u ''extra'' @ [QUOTE]],
            (Popen (prints (u ''extra'' @ [NL] @ u ''more'' @ [NL])))\<lparr>stdout_pending := u ''more'' @ [NL]\<rparr>)
   \<and> stdout_pending (Popen (prints [])) = []
   \<and> run_test_loop (example_world []) (Popen (prints [])) []
       [Inr (EndOutput, [NL], u ''/t/a.tstl:5'')]
     = Inr (True, [], Popen (prints []))
   \<and> utf8_decode (fst (split_line (stdout_pending (Popen (prints [255, NL]))))) = None
   \<and> run_test_loop (example_world []) (Popen (prints [255, NL])) []
       [Inr (EndOutput, [NL], u ''/t/a.tstl:5'')]
     = Inl UnicodeDecodeError"
proof -
  let ?p = "Popen (prints (u ''extra'' @ [NL] @ u ''more'' @ [NL]))"
  let ?q = "Popen (prints [255, NL])"
  let ?w = "example_world []"
  have n: "stdout_pending ?p \<noteq> []"
    by (simp add: world_defs text_defs pipe_defs)
  have h: "utf8_decode (fst (split_line (stdout_pending ?p))) = Some (u ''extra'' @ [NL])"
    by (simp add: world_defs text_defs pipe_defs)
  have r: "snd (split_line (stdout_pending ?p)) = u ''more'' @ [NL]"
    by (simp add: world_defs text_defs pipe_defs)
  have e: "stdout_pending (Popen (prints [])) = []"
    by (simp add: world_defs pipe_defs)
  have qn: "stdout_pending ?q \<noteq> []"
    by (simp add: world_defs text_defs pipe_defs)
  have b: "utf8_decode (fst (split_line (stdout_pending ?q))) = None"
    by (simp add: world_defs text_defs pipe_defs)
  note t1 = end_output_directive_on_text_line [of ?p ?w "[NL]" "u ''/t/a.tstl:5''"
        "[Inr (Output, u ''x'' @ [NL], u ''/t/a.tstl:6'')]"]
  note t2 = end_output_directive_on_text_line [of "Popen (prints [])" ?w "[NL]" "u ''/t/a.tstl:5''" "[]"]
  note t3 = end_output_directive_on_text_line [of ?q ?w "[NL]" "u ''/t/a.tstl:5''" "[]"]
  from t1 n h obtain got where
    m: "run_test_loop ?w ?p []
          [Inr (EndOutput, [NL], u ''/t/a.tstl:5''), Inr (Output, u ''x'' @ [NL], u ''/t/a.tstl:6'')]
        = Inr (False,
               [u ''Test failed at '' @ u ''/t/a.tstl:5'',
                u ''Expected End-Of-File'',
                u ''Got'' @ [TAB, TAB, QUOTE] @ got @ [QUOTE]],
               ?p\<lparr>stdout_pending := snd (split_line (stdout_pending ?p))\<rparr>)"
    and g: "\<forall>t. u ''extra'' @ [NL] = t @ [NL] \<longrightarrow> got = t"
    by blast
  from g have g': "got = u ''extra''" by blast
  from t2 e have ok: "run_test_loop ?w (Popen (prints [])) [] [Inr (EndOutput, [NL], u ''/t/a.tstl:5'')]
      = Inr (True, [], Popen (prints []))"
    by simp
  from t3 qn b have bad: "run_test_loop ?w ?q [] [Inr (EndOutput, [NL], u ''/t/a.tstl:5'')]
      = Inl UnicodeDecodeError"
    by blast
  from n h m g' e ok b bad show ?thesis
    unfolding r by (intro conjI) simp_all
qed

section \<open>Facts about the parser\<close>


lemma find_token_None:
  "find_token line ts found = None \<longleftrightarrow> found = None \<and> \<not> list_ex (startswith line) ts"
  by (induction ts arbitrary: found) (auto simp: Let_def)

lemma find_token_Some:
  "find_token line ts found = Some (t, s) \<Longrightarrow>
   found = Some (t, s) \<or> (t \<in> set ts \<and> line = t @ s)"
proof (induction ts arbitrary: found)
  case Nil
  then show ?case by simp
next
  case (Cons a ts)
  from Cons.IH [OF Cons.prems [simplified find_token.simps]]
  show ?case
    by (auto simp: Let_def startswith_iff split: if_splits) (metis append_take_drop_id)+
qed

lemma KINDS_lookup:
  "t \<in> set (map fst KINDS) \<Longrightarrow> \<exists>k. map_of KINDS t = Some k \<and> (t, k) \<in> set KINDS"
  by (auto simp: KINDS_def)

lemma invalid_test_text:
  "invalid_test origin =
     [NL] @ u ''Invalid test at '' @ origin
       @ u ''. Expected line to start with one of >>> , !>>, <<< , !<<.''"
  by (simp add: invalid_test_def KINDS_def u_def)

lemma read_test_lines_error:
  assumes "list_all (\<lambda>l. is_skipped l \<or> matches_token l) pre"
      and "\<not> is_skipped line" and "\<not> matches_token line"
  shows "\<exists>ds. read_test_lines ap idx (pre @ line # post) =
           map Inr ds @ [Inl (ValueError (invalid_test (ap @ u '':'' @ str_nat (idx + length pre + 1))))]"
  using assms(1)
proof (induction pre arbitrary: idx)
  case Nil
  have "find_token line (map fst KINDS) None = None"
    using assms(3) by (simp add: find_token_None matches_token_def)
  with assms(2) show ?case
    by (auto simp: is_skipped_def intro: exI [of _ "[]"])
next
  case (Cons l pre)
  from Cons.prems have rest: "list_all (\<lambda>l. is_skipped l \<or> matches_token l) pre"
    by simp
  from Cons.IH [OF rest, of "idx + 1"] obtain ds where
    ds: "read_test_lines ap (idx + 1) (pre @ line # post) =
           map Inr ds @ [Inl (ValueError (invalid_test (ap @ u '':'' @ str_nat (idx + length pre + 2))))]"
    by (auto simp: add.assoc)
  show ?case
  proof (cases "is_skipped l")
    case True
    with ds show ?thesis
      by (auto simp: is_skipped_def intro: exI [of _ ds])
  next
    case False
    with Cons.prems have "matches_token l" by simp
    then obtain t s where ts: "find_token l (map fst KINDS) None = Some (t, s)"
      using find_token_None [of l "map fst KINDS" None]
      by (cases "find_token l (map fst KINDS) None") (auto simp: matches_token_def)
    from find_token_Some [OF ts] have "t \<in> set (map fst KINDS)" by simp
    from KINDS_lookup [OF this] obtain k where k: "map_of KINDS t = Some k" by blast
    let ?d = "(k, s, ap @ u '':'' @ str_nat (idx + 1))"
    from False ts k ds have
      "read_test_lines ap idx ((l # pre) @ line # post) =
         map Inr (?d # ds) @ [Inl (ValueError (invalid_test (ap @ u '':'' @ str_nat (idx + length pre + 2))))]"
      by (simp add: is_skipped_def)
    then show ?thesis
      by (intro exI [of _ "?d # ds"]) simp
  qed
qed

lemma read_test_lines_origin:
  "Inr (k, s, origin) \<in> set (read_test_lines ap idx lines) \<Longrightarrow>
   \<exists>j<length lines. origin = ap @ u '':'' @ str_nat (idx + j + 1)
      \<and> \<not> is_skipped (lines ! j) \<and> (\<exists>tok. (tok, k) \<in> set KINDS \<and> lines ! j = tok @ s)"
proof (induction lines arbitrary: idx)
  case Nil
  then show ?case by simp
next
  case (Cons l lines)
  have step: "\<exists>j<length (l # lines). origin = ap @ u '':'' @ str_nat (idx + j + 1)
      \<and> \<not> is_skipped ((l # lines) ! j) \<and> (\<exists>tok. (tok, k) \<in> set KINDS \<and> (l # lines) ! j = tok @ s)"
    if "Inr (k, s, origin) \<in> set (read_test_lines ap (idx + 1) lines)"
  proof -
    from Cons.IH [OF that] obtain j where
      j: "j < length lines" "origin = ap @ u '':'' @ str_nat (idx + 1 + j + 1)"
         "\<not> is_skipped (lines ! j)" "\<exists>tok. (tok, k) \<in> set KINDS \<and> lines ! j = tok @ s"
      by blast
    then show ?thesis
      by (intro exI [of _ "Suc j"]) (simp add: add.commute add.left_commute)
  qed
  show ?case
  proof (cases "is_skipped l")
    case True
    with Cons.prems have "Inr (k, s, origin) \<in> set (read_test_lines ap (idx + 1) lines)"
      by (auto simp: is_skipped_def split: if_splits)
    then show ?thesis by (rule step)
  next
    case False
    show ?thesis
    proof (cases "find_token l (map fst KINDS) None")
      case None
      with False Cons.prems show ?thesis
        by (auto simp: is_skipped_def)
    next
      case (Some a)
      obtain t s' where a: "a = (t, s')" by (cases a)
      from find_token_Some [OF Some [unfolded a]] have t: "t \<in> set (map fst KINDS)" "l = t @ s'"
        by simp_all
      from KINDS_lookup [OF t(1)] obtain k' where k': "map_of KINDS t = Some k'" "(t, k') \<in> set KINDS"
        by blast
      from False Some a k' Cons.prems
      consider "(k, s, origin) = (k', s', ap @ u '':'' @ str_nat (idx + 1))"
        | "Inr (k, s, origin) \<in> set (read_test_lines ap (idx + 1) lines)"
        by (auto simp: is_skipped_def)
      then show ?thesis
      proof cases
        case 1
        with False t k' show ?thesis
          by (intro exI [of _ 0]) auto
      next
        case 2
        then show ?thesis by (rule step)
      qed
    qed
  qed
qed

section \<open>Facts about the executor\<close>










lemma end_input_on_closed_stdin:
  "stdin_closed p \<Longrightarrow>
   run_test_loop w p result_lines (Inr (EndInput, s, origin) # rest) =
   run_test_loop w p result_lines rest"
  by (simp add: stdin_close_def)

lemma consumed_run_test_loop_append:
  "consumed w p ds p' \<Longrightarrow>
   run_test_loop w p [] (map Inr ds @ rest) = run_test_loop w p' [] rest"
  by (induction rule: consumed.induct) simp_all



section \<open>Facts about \<open>cmd_run\<close>\<close>

lemma cmd_run_loop_append:
  "cmd_run_loop w command (xs @ ys) out n =
     (case cmd_run_loop w command xs out n of
        (out', n', None) \<Rightarrow> cmd_run_loop w command ys out' n'
      | (out', n', Some e) \<Rightarrow> (out', n', Some e))"
proof (induction xs arbitrary: out n)
  case Nil
  then show ?case by simp
next
  case (Cons x xs)
  show ?case
  proof (cases "run_test w x command")
    case (Inl e)
    then show ?thesis by simp
  next
    case (Inr r)
    obtain passed result p where r: "r = (passed, result, p)"
      by (cases r) auto
    with Inr Cons.IH show ?thesis
      by (cases passed) simp_all
  qed
qed

lemma cmd_run_loop_raises:
  assumes "run_test w path_test command = Inl e"
  shows "cmd_run_loop w command (path_test # paths) out n =
     (out @ [Stdout ([NL] @ u ''Running test '' @ path_test @ u '' ... '')], n, Some e)"
  using assms by simp


lemmas run_defs = main_def SUBCOMMANDS_def cmd_run_def find_testpaths_in_def endswith_def
  run_test_def

section \<open>A run that passes\<close>



section \<open>EndInput on a standard input that is already closed\<close>

text \<open>
  What an \<open>EndInput\<close> directive does, in every state: nothing when the stream is already
  closed; and the failure branch exactly when buffered input cannot be flushed because
  the child has closed its end of the pipe.
\<close>

lemma flush_raises_iff:
  "flush p = Inl e \<longleftrightarrow> e = BrokenPipeError \<and> stdin_buffer p \<noteq> [] \<and> writes_left p = Some 0"
  by (auto simp: flush_def raw_write_def split: option.splits nat.splits)

lemma end_input_directive:
  "run_test_loop w p result_lines (Inr (EndInput, s, origin) # rest) =
     (if stdin_closed p then run_test_loop w p result_lines rest
      else case flush p of
             Inl e \<Rightarrow>
               Inr (False,
                    result_lines
                      @ [u ''At '' @ origin,
                         u ''Tried to close the standard input but it is already closed!''],
                    p\<lparr>stdin_closed := True\<rparr>)
           | Inr p' \<Rightarrow> run_test_loop w (p'\<lparr>stdin_closed := True\<rparr>) result_lines rest)"
proof (cases "flush p")
  case (Inl e)
  then have "e = BrokenPipeError"
    by (simp add: flush_raises_iff)
  with Inl show ?thesis
    by (simp add: stdin_close_def)
next
  case (Inr p')
  then show ?thesis
    by (simp add: stdin_close_def)
qed

lemma end_input_broken_pipe_example:
  "run_test
     (example_world [(u ''a.tstl'', [u ''>>> hi'' @ [NL], u ''!>>'' @ [NL], u ''!<<'' @ [NL]],
                      prints_and_exits [])])
     (u ''a.tstl'') [u ''prog'']
   = Inr (False,
          [u ''At /t/a.tstl:2'',
           u ''Tried to close the standard input but it is already closed!''],
          \<lparr>stdin_closed = True, stdin_buffer = u ''hi'' @ [NL], stdin_pipe = [],
           writes_left = Some 0, stdout_pending = [], returncode = None\<rparr>)"
  by (simp add: run_test_def world_defs text_defs parser_defs pipe_defs str_nat.simps)

text \<open>
  C1. A script with a second \<open>!>>\<close>: \<open>p.stdin.close()\<close> has no effect on the stream that
  the first one closed and raises nothing, so the loop goes on. Here it reaches the
  \<open>Output\<close> directive of line 3 and reports the mismatch found there; no diagnostic
  says that the standard input is already closed.
\<close>

theorem second_end_input_is_ignored:
  "run_test (example_world double_close_test) (u ''a.tstl'') [u ''prog'']
   = Inr (False,
          [u ''At /t/a.tstl:3'',
           u ''Expected'' @ [TAB, QUOTE] @ u ''x'' @ [QUOTE],
           u ''Got'' @ [TAB, TAB, QUOTE] @ u ''y'' @ [QUOTE]],
          \<lparr>stdin_closed = True, stdin_buffer = [], stdin_pipe = [],
           writes_left = None, stdout_pending = [], returncode = None\<rparr>)"
  by (simp add: run_test_def double_close_test_def world_defs text_defs parser_defs pipe_defs
        str_nat.simps)

section \<open>The text shown in a diagnostic\<close>

text \<open>
  C6. The displayed texts are \<open>s[:-1]\<close> and \<open>line[:-1]\<close>: the last character is cut,
  whatever it is. The child writes \<open>abd\<close> and ends without a newline; the diagnostic
  shows \<open>ab\<close>.
\<close>

theorem last_character_is_cut:
  "run_test (example_world no_newline_test) (u ''a.tstl'') [u ''prog'']
   = Inr (False,
          [u ''At /t/a.tstl:1'',
           u ''Expected'' @ [TAB, QUOTE] @ u ''abc'' @ [QUOTE],
           u ''Got'' @ [TAB, TAB, QUOTE] @ u ''ab'' @ [QUOTE]],
          \<lparr>stdin_closed = False, stdin_buffer = [], stdin_pipe = [],
           writes_left = None, stdout_pending = [], returncode = None\<rparr>)"
  by (simp add: run_test_def no_newline_test_def world_defs text_defs parser_defs pipe_defs
        str_nat.simps)

section \<open>Syntax errors\<close>

text \<open>
  C7, as claimed, fails: a file whose two lines both match no token. The second line is
  not skipped and matches none of the four tokens, but the parser raises at the first
  line and stops there: the only error names line 1, and no error names line 2.
\<close>

theorem second_bad_line_not_named_counterexample:
  "readlines (example_world two_bad_lines_test) (u ''a.tstl'') ! 1 = u ''%%% two'' @ [NL]
   \<and> \<not> is_skipped (u ''%%% two'' @ [NL])
   \<and> \<not> matches_token (u ''%%% two'' @ [NL])
   \<and> read_test (example_world two_bad_lines_test) (u ''a.tstl'') =
       [Inl (ValueError
          ([NL] @ u ''Invalid test at /t/a.tstl:1. Expected line to start with one of >>> , !>>, <<< , !<<.''))]
   \<and> [NL] @ u ''Invalid test at /t/a.tstl:1. Expected line to start with one of >>> , !>>, <<< , !<<.''
       \<noteq> [NL] @ u ''Invalid test at /t/a.tstl:2. Expected line to start with one of >>> , !>>, <<< , !<<.''"
  by (simp add: two_bad_lines_test_def world_defs text_defs parser_defs str_nat.simps)

text \<open>
  C7, as amended. In any script file, at the first line that is not skipped and matches none of the
  four tokens, the parser raises \<open>ValueError\<close> after the directives of the lines before
  it; the message names the absolute path of the file and the 1-based number of that
  line among all the lines of the file, and lists the four tokens. Every directive the
  parser yields carries the absolute path and the 1-based number of the line it was
  read from.
\<close>

theorem syntax_error_names_file_and_line:
  "(\<forall>pre line post.
      readlines w path_test = pre @ line # post
      \<and> list_all (\<lambda>l. is_skipped l \<or> matches_token l) pre
      \<and> \<not> is_skipped line \<and> \<not> matches_token line
      \<longrightarrow> (\<exists>ds. read_test w path_test =
             map Inr ds
             @ [Inl (ValueError
                  ([NL] @ u ''Invalid test at ''
                     @ (abspath w path_test @ u '':'' @ str_nat (length pre + 1))
                     @ u ''. Expected line to start with one of >>> , !>>, <<< , !<<.''))]))
   \<and> (\<forall>k s origin.
        Inr (k, s, origin) \<in> set (read_test w path_test)
        \<longrightarrow> (\<exists>j<length (readlines w path_test).
               origin = abspath w path_test @ u '':'' @ str_nat (j + 1)
               \<and> \<not> is_skipped (readlines w path_test ! j)
               \<and> (\<exists>tok. (tok, k) \<in> set KINDS \<and> readlines w path_test ! j = tok @ s)))"
proof (intro conjI allI impI)
  fix pre line post
  assume a: "readlines w path_test = pre @ line # post
      \<and> list_all (\<lambda>l. is_skipped l \<or> matches_token l) pre
      \<and> \<not> is_skipped line \<and> \<not> matches_token line"
  then have "\<exists>ds. read_test_lines (abspath w path_test) 0 (pre @ line # post) =
           map Inr ds @ [Inl (ValueError (invalid_test (abspath w path_test @ u '':'' @ str_nat (0 + length pre + 1))))]"
    by (intro read_test_lines_error) simp_all
  with a show "\<exists>ds. read_test w path_test =
             map Inr ds
             @ [Inl (ValueError
                  ([NL] @ u ''Invalid test at ''
                     @ (abspath w path_test @ u '':'' @ str_nat (length pre + 1))
                     @ u ''. Expected line to start with one of >>> , !>>, <<< , !<<.''))]"
    by (simp add: read_test_def invalid_test_text)
next
  fix k s origin
  assume "Inr (k, s, origin) \<in> set (read_test w path_test)"
  then show "\<exists>j<length (readlines w path_test).
               origin = abspath w path_test @ u '':'' @ str_nat (j + 1)
               \<and> \<not> is_skipped (readlines w path_test ! j)
               \<and> (\<exists>tok. (tok, k) \<in> set KINDS \<and> readlines w path_test ! j = tok @ s)"
    using read_test_lines_origin [of k s origin "abspath w path_test" 0 "readlines w path_test"]
    by (simp add: read_test_def)
qed

theorem syntax_error_names_file_and_line_witness:
  "readlines (example_world mixed_tests) (u ''q.tstl'') =
     [u ''# comment'' @ [NL], [NL], u ''>>> hi'' @ [NL]] @ (u ''%%% nonsense'' @ [NL]) # [u ''!<<'' @ [NL]]
   \<and> list_all (\<lambda>l. is_skipped l \<or> matches_token l) [u ''# comment'' @ [NL], [NL], u ''>>> hi'' @ [NL]]
   \<and> \<not> is_skipped (u ''%%% nonsense'' @ [NL])
   \<and> \<not> matches_token (u ''%%% nonsense'' @ [NL])
   \<and> (\<exists>ds. read_test (example_world mixed_tests) (u ''q.tstl'') =
          map Inr ds
          @ [Inl (ValueError
               ([NL] @ u ''Invalid test at ''
                  @ (abspath (example_world mixed_tests) (u ''q.tstl'') @ u '':''
                       @ str_nat (length [u ''# comment'' @ [NL], [NL], u ''>>> hi'' @ [NL]] + 1))
                  @ u ''. Expected line to start with one of >>> , !>>, <<< , !<<.''))])
   \<and> Inr (Input, u ''hi'' @ [NL], u ''/t/q.tstl:3'')
       \<in> set (read_test (example_world mixed_tests) (u ''q.tstl''))
   \<and> (\<exists>j<length (readlines (example_world mixed_tests) (u ''q.tstl'')).
         u ''/t/q.tstl:3'' = abspath (example_world mixed_tests) (u ''q.tstl'') @ u '':'' @ str_nat (j + 1)
         \<and> \<not> is_skipped (readlines (example_world mixed_tests) (u ''q.tstl'') ! j)
         \<and> (\<exists>tok. (tok, Input) \<in> set KINDS
               \<and> readlines (example_world mixed_tests) (u ''q.tstl'') ! j = tok @ (u ''hi'' @ [NL])))"
proof -
  let ?w = "example_world mixed_tests"
  let ?pre = "[u ''# comment'' @ [NL], [NL], u ''>>> hi'' @ [NL]]"
  let ?line = "u ''%%% nonsense'' @ [NL]"
  have l: "readlines ?w (u ''q.tstl'') = ?pre @ ?line # [u ''!<<'' @ [NL]]"
    by (simp add: mixed_tests_def world_defs text_defs)
  have ok: "list_all (\<lambda>l. is_skipped l \<or> matches_token l) ?pre"
    by (simp add: text_defs parser_defs)
  have bad: "\<not> is_skipped ?line" "\<not> matches_token ?line"
    by (simp_all add: text_defs parser_defs)
  have d: "Inr (Input, u ''hi'' @ [NL], u ''/t/q.tstl:3'') \<in> set (read_test ?w (u ''q.tstl''))"
    by (simp add: mixed_tests_def world_defs text_defs parser_defs str_nat.simps)
  note t = syntax_error_names_file_and_line [of ?w "u ''q.tstl''"]
  from t have e: "\<exists>ds. read_test ?w (u ''q.tstl'') =
          map Inr ds
          @ [Inl (ValueError
               ([NL] @ u ''Invalid test at ''
                  @ (abspath ?w (u ''q.tstl'') @ u '':'' @ str_nat (length ?pre + 1))
                  @ u ''. Expected line to start with one of >>> , !>>, <<< , !<<.''))]"
    using l ok bad by blast
  from t d have o: "\<exists>j<length (readlines ?w (u ''q.tstl'')).
         u ''/t/q.tstl:3'' = abspath ?w (u ''q.tstl'') @ u '':'' @ str_nat (j + 1)
         \<and> \<not> is_skipped (readlines ?w (u ''q.tstl'') ! j)
         \<and> (\<exists>tok. (tok, Input) \<in> set KINDS
               \<and> readlines ?w (u ''q.tstl'') ! j = tok @ (u ''hi'' @ [NL]))"
    by blast
  from l ok bad e d o show ?thesis
    by (intro conjI)
qed

text \<open>
  C3, as claimed, fails: the first of two test files has a line that matches no token.
  The program prints that it runs the file and then the error message, and ends: the
  file is not reported as \<open>FAILED.\<close>, the second file is not run, and no summary line is
  printed.
\<close>

theorem syntax_error_aborts_run_counterexample:
  "main (example_world syntax_error_tests) [u ''tstl'', u ''run'', u ''prog'']
   = ([Stdout ([NL] @ u ''Running test a.tstl ... ''),
       Stdout ([NL] @ u ''Invalid test at /t/a.tstl:1. Expected line to start with one of >>> , !>>, <<< , !<<.'' @ [NL])],
      None)"
  by (simp add: main_def SUBCOMMANDS_def cmd_run_def find_testpaths_in_def endswith_def
        run_test_def syntax_error_tests_def world_defs text_defs parser_defs pipe_defs
        str_nat.simps)

text \<open>
  C3, as amended. The \<open>ValueError\<close> of the parser leaves \<open>run_test\<close> and \<open>cmd_run\<close>
  and is caught in \<open>main\<close>, which prints its message to standard output and returns.
  So when the parser reaches such a line in a test file (the directives before it
  having been consumed), the whole run ends there: after the output of the files
  before it, the program prints that it runs the file and then the message; the file
  is not reported as failed, the files after it are not run, and no summary is
  printed.
\<close>

theorem syntax_error_ends_the_run:
  assumes "sub = u ''run'' \<or> sub = u ''r''"
      and "which w cmd"
      and "find_testpaths_in w (u ''.'') = pre @ path_test # post"
      and "cmd_run_loop w (cmd # cmd_args) pre [] 0 = (out, n, None)"
      and "read_test w path_test = map Inr ds @ [Inl (ValueError message)]"
      and "consumed w (Popen (spawn w (cmd # cmd_args) path_test)) ds p'"
  shows "main w (prog # sub # cmd # cmd_args) =
     (out @ [Stdout ([NL] @ u ''Running test '' @ path_test @ u '' ... ''),
             Stdout (message @ [NL])],
      None)"
proof -
  let ?command = "cmd # cmd_args"
  have raised: "run_test w path_test ?command = Inl (ValueError message)"
    using assms(5) consumed_run_test_loop_append [OF assms(6), of "[Inl (ValueError message)]"]
    by (simp add: run_test_def)
  have loop: "cmd_run_loop w ?command (pre @ path_test # post) [] 0 =
      (out @ [Stdout ([NL] @ u ''Running test '' @ path_test @ u '' ... '')], n,
       Some (ValueError message))"
    using assms(4) cmd_run_loop_raises [OF raised]
    by (simp add: cmd_run_loop_append)
  have run: "cmd_run w (sub # ?command) =
      (out @ [Stdout ([NL] @ u ''Running test '' @ path_test @ u '' ... '')],
       Some (ValueError message))"
    using assms(2,3) loop by (simp add: cmd_run_def)
  have sub: "map_of SUBCOMMANDS sub = Some cmd_run"
    using assms(1) by (auto simp: SUBCOMMANDS_def u_def)
  show ?thesis
    using sub run by (simp add: main_def)
qed

theorem syntax_error_ends_the_run_witness:
  "which (example_world mixed_tests) (u ''prog'')
   \<and> find_testpaths_in (example_world mixed_tests) (u ''.'') = [u ''p.tstl''] @ u ''q.tstl'' # [u ''r.tstl'']
   \<and> cmd_run_loop (example_world mixed_tests) [u ''prog''] [u ''p.tstl''] [] 0 =
       ([Stdout ([NL] @ u ''Running test p.tstl ... ''), Stdout (u ''passed.'' @ [NL]), Stdout [NL]],
        1, None)
   \<and> read_test (example_world mixed_tests) (u ''q.tstl'') =
       map Inr [(Input, u ''hi'' @ [NL], u ''/t/q.tstl:3'')]
       @ [Inl (ValueError ([NL] @ u ''Invalid test at /t/q.tstl:4. Expected line to start with one of >>> , !>>, <<< , !<<.''))]
   \<and> main (example_world mixed_tests) [u ''tstl'', u ''run'', u ''prog''] =
       ([Stdout ([NL] @ u ''Running test p.tstl ... ''), Stdout (u ''passed.'' @ [NL]), Stdout [NL],
         Stdout ([NL] @ u ''Running test q.tstl ... ''),
         Stdout ([NL] @ u ''Invalid test at /t/q.tstl:4. Expected line to start with one of >>> , !>>, <<< , !<<.'' @ [NL])],
        None)"
proof -
  let ?w = "example_world mixed_tests"
  let ?p0 = "Popen (spawn ?w [u ''prog''] (u ''q.tstl''))"
  let ?p1 = "?p0\<lparr>stdin_buffer := u ''hi'' @ [NL]\<rparr>"
  have s: "u ''run'' = u ''run'' \<or> u ''run'' = u ''r''"
    by simp
  have wh: "which ?w (u ''prog'')"
    by (simp add: world_defs)
  have paths: "find_testpaths_in ?w (u ''.'') = [u ''p.tstl''] @ u ''q.tstl'' # [u ''r.tstl'']"
    by (simp add: find_testpaths_in_def endswith_def mixed_tests_def world_defs text_defs)
  have pre: "cmd_run_loop ?w [u ''prog''] [u ''p.tstl''] [] 0 =
       ([Stdout ([NL] @ u ''Running test p.tstl ... ''), Stdout (u ''passed.'' @ [NL]), Stdout [NL]],
        1, None)"
    by (simp add: run_test_def mixed_tests_def world_defs text_defs parser_defs pipe_defs
          str_nat.simps)
  have parse: "read_test ?w (u ''q.tstl'') =
       map Inr [(Input, u ''hi'' @ [NL], u ''/t/q.tstl:3'')]
       @ [Inl (ValueError ([NL] @ u ''Invalid test at /t/q.tstl:4. Expected line to start with one of >>> , !>>, <<< , !<<.''))]"
    by (simp add: mixed_tests_def world_defs text_defs parser_defs str_nat.simps)
  have b: "run_test_body ?w ?p0 [] (Input, u ''hi'' @ [NL], u ''/t/q.tstl:3'') = Inr (Continue ?p1 [])"
    by (simp add: mixed_tests_def world_defs text_defs pipe_defs)
  have c: "consumed ?w ?p0 [(Input, u ''hi'' @ [NL], u ''/t/q.tstl:3'')] ?p1"
    by (intro consumed_Cons [OF b] consumed_Nil)
  show ?thesis
    using wh paths pre parse
      syntax_error_ends_the_run [OF s wh paths pre parse c, of "u ''tstl''"]
    by (simp add: u_def)
qed

section \<open>Unknown subcommands\<close>

text \<open>
  C8. A subcommand name that is not a key of \<open>SUBCOMMANDS\<close>: the lookup raises
  \<open>KeyError\<close> before the \<open>try\<close> statement is entered, nothing is printed, and the
  exception ends the program unhandled.
\<close>

theorem unknown_subcommand_raises_KeyError:
  "main w [u ''tstl'', u ''bogus''] = ([], Some (KeyError (u ''bogus'')))"
  by (simp add: main_def SUBCOMMANDS_def u_def)

section \<open>The state of the child when \<open>run_test\<close> returns\<close>




end
